theory Spec2Isabelle
  imports Main "HOL-Library.Sublist"
begin

section \<open>The three placeholder components\<close>

text \<open>
  Each Python class is a record of its instance attributes. A method takes the instance
  and returns its result paired with the instance as the method leaves it. Python strings
  are modelled as \<^typ>\<open>string\<close>; a character outside ASCII is written as its UTF-8 bytes.
\<close>

subsection \<open>\<open>actions/adb.py\<close>: ADBController\<close>

record ADBController =
  connected :: bool

definition ADBController_init :: ADBController where
  "ADBController_init = \<lparr>connected = False\<rparr>"

definition connect :: "ADBController \<Rightarrow> bool \<times> ADBController" where
  "connect self = (True, self\<lparr>connected := True\<rparr>)"

definition disconnect :: "ADBController \<Rightarrow> bool \<times> ADBController" where
  "disconnect self = (True, self\<lparr>connected := False\<rparr>)"

subsection \<open>\<open>vision/processor.py\<close>: VisionProcessor\<close>

record VisionProcessor =
  initialized :: bool

definition VisionProcessor_init :: VisionProcessor where
  "VisionProcessor_init = \<lparr>initialized = False\<rparr>"

definition process_image :: "string \<Rightarrow> VisionProcessor \<Rightarrow> string \<times> VisionProcessor" where
  "process_image image_path self = (''Processed: '' @ image_path, self\<lparr>initialized := True\<rparr>)"

definition detect_objects :: "'a \<Rightarrow> VisionProcessor \<Rightarrow> 'b list \<times> VisionProcessor" where
  "detect_objects img self = ([], self)"

subsection \<open>\<open>planner/strategy.py\<close>: Planner\<close>

text \<open>
  The attribute \<open>strategy\<close> is either \<open>None\<close> or a dict. The dict literal
  \<open>{"objectives": objectives, "steps": []}\<close> is an association list in insertion order,
  read with \<^const>\<open>map_of\<close>. Both values are lists of strings.
\<close>

type_synonym plan = "(string \<times> string list) list"

record Planner =
  strategy :: "plan option"

definition Planner_init :: Planner where
  "Planner_init = \<lparr>strategy = None\<rparr>"

definition create_plan :: "string list \<Rightarrow> Planner \<Rightarrow> plan option \<times> Planner" where
  "create_plan objectives self =
     (let self' = self\<lparr>strategy := Some [(''objectives'', objectives), (''steps'', [])]\<rparr>
      in (strategy self', self'))"

text \<open>
  Python's truth test of \<open>if self.strategy:\<close>: \<open>None\<close> is false, and a dict is true
  exactly when it has at least one key.
\<close>

fun truthy :: "plan option \<Rightarrow> bool" where
  "truthy None = False"
| "truthy (Some d) = (0 < length d)"

definition execute_plan :: "Planner \<Rightarrow> string \<times> Planner" where
  "execute_plan self =
     (if truthy (strategy self) then (''Plan executed'', self)
      else (''No plan to execute'', self))"

text \<open>
  A history of method calls on one Planner instance, replayed from left to right with the
  results discarded.
\<close>

datatype planner_call = CreatePlan "string list" | ExecutePlan

fun is_create :: "planner_call \<Rightarrow> bool" where
  "is_create (CreatePlan objectives) = True"
| "is_create ExecutePlan = False"

fun call_planner :: "planner_call \<Rightarrow> Planner \<Rightarrow> Planner" where
  "call_planner (CreatePlan objectives) self = snd (create_plan objectives self)"
| "call_planner ExecutePlan self = snd (execute_plan self)"

fun run_calls :: "planner_call list \<Rightarrow> Planner \<Rightarrow> Planner" where
  "run_calls [] self = self"
| "run_calls (c # cs) self = run_calls cs (call_planner c self)"

section \<open>\<open>test_python_imports.py\<close>: the verification script\<close>

text \<open>
  Exceptions are values. Below \<open>Exception\<close> the datatype has what the two \<open>except\<close>
  clauses tell apart: \<open>ImportError\<close>, its subclass \<open>ModuleNotFoundError\<close>, the
  \<open>AssertionError\<close> of a failed \<open>assert\<close>, and any other subclass of \<open>Exception\<close>. Beside
  \<open>Exception\<close>, directly below \<open>BaseException\<close>, it has \<open>SystemExit\<close> with an integer
  exit code, \<open>KeyboardInterrupt\<close>, and any other class that derives from \<open>BaseException\<close>
  without deriving from \<open>Exception\<close>. A constructor's string is the text of \<open>str(e)\<close>.
\<close>

datatype py_exc =
    ImportError string
  | ModuleNotFoundError string
  | AssertionError string
  | OtherException string
  | SystemExit int
  | KeyboardInterrupt string
  | OtherBaseException string

fun isinstance_ImportError :: "py_exc \<Rightarrow> bool" where
  "isinstance_ImportError (ImportError msg) = True"
| "isinstance_ImportError (ModuleNotFoundError msg) = True"
| "isinstance_ImportError (AssertionError msg) = False"
| "isinstance_ImportError (OtherException msg) = False"
| "isinstance_ImportError (SystemExit code) = False"
| "isinstance_ImportError (KeyboardInterrupt msg) = False"
| "isinstance_ImportError (OtherBaseException msg) = False"

fun isinstance_Exception :: "py_exc \<Rightarrow> bool" where
  "isinstance_Exception (ImportError msg) = True"
| "isinstance_Exception (ModuleNotFoundError msg) = True"
| "isinstance_Exception (AssertionError msg) = True"
| "isinstance_Exception (OtherException msg) = True"
| "isinstance_Exception (SystemExit code) = False"
| "isinstance_Exception (KeyboardInterrupt msg) = False"
| "isinstance_Exception (OtherBaseException msg) = False"

text \<open>Python's \<open>str\<close> of an integer: its decimal digits, after a minus sign if negative.\<close>

definition digit_char :: "nat \<Rightarrow> char" where
  "digit_char d = char_of (48 + d)"

fun str_nat :: "nat \<Rightarrow> string" where
  "str_nat n =
     (let last_digit = [digit_char (n mod 10)]
      in if 10 \<le> n then str_nat (n div 10) @ last_digit else last_digit)"

definition str_int :: "int \<Rightarrow> string" where
  "str_int i = (if i < 0 then CHR ''-'' # str_nat (nat (- i)) else str_nat (nat i))"

fun str_exc :: "py_exc \<Rightarrow> string" where
  "str_exc (ImportError msg) = msg"
| "str_exc (ModuleNotFoundError msg) = msg"
| "str_exc (AssertionError msg) = msg"
| "str_exc (OtherException msg) = msg"
| "str_exc (SystemExit code) = str_int code"
| "str_exc (KeyboardInterrupt msg) = msg"
| "str_exc (OtherBaseException msg) = msg"

text \<open>
  The statements of the \<open>try\<close> block that can raise for a reason outside the three
  modules (a module that cannot be found or does not load, a failing constructor or
  method). The runtime says, for each of them, whether it raises and what.
\<close>

datatype step =
    ImportADBController | ImportVisionProcessor | ImportPlanner
  | NewADBController | NewVisionProcessor | NewPlanner
  | CallConnect | CallProcessImage | CallCreatePlan

type_synonym runtime = "step \<Rightarrow> py_exc option"

definition no_faults :: runtime where
  "no_faults = (\<lambda>s. None)"

text \<open>The two emoji of the messages, U+2705 and U+274C, as UTF-8 bytes.\<close>

definition check_mark :: string where
  "check_mark = [CHR 0xE2, CHR 0x9C, CHR 0x85]"

definition cross_mark :: string where
  "cross_mark = [CHR 0xE2, CHR 0x9D, CHR 0x8C]"

definition import_stage :: "runtime \<Rightarrow> py_exc + unit" where
  "import_stage rt =
     (case rt ImportADBController of Some e \<Rightarrow> Inl e | None \<Rightarrow>
      (case rt ImportVisionProcessor of Some e \<Rightarrow> Inl e | None \<Rightarrow>
       (case rt ImportPlanner of Some e \<Rightarrow> Inl e | None \<Rightarrow> Inr ())))"

definition instantiate_stage ::
  "runtime \<Rightarrow> py_exc + (ADBController \<times> VisionProcessor \<times> Planner)" where
  "instantiate_stage rt =
     (case rt NewADBController of Some e \<Rightarrow> Inl e | None \<Rightarrow>
      (case rt NewVisionProcessor of Some e \<Rightarrow> Inl e | None \<Rightarrow>
       (case rt NewPlanner of Some e \<Rightarrow> Inl e | None \<Rightarrow>
          Inr (ADBController_init, VisionProcessor_init, Planner_init))))"

text \<open>The three \<open>assert\<close> statements; a failed one raises \<open>AssertionError\<close> with no text.\<close>

definition assert_stage ::
  "runtime \<Rightarrow> ADBController \<Rightarrow> VisionProcessor \<Rightarrow> Planner \<Rightarrow> py_exc + unit" where
  "assert_stage rt adb vision planner =
     (case rt CallConnect of Some e \<Rightarrow> Inl e | None \<Rightarrow>
      if fst (connect adb) \<noteq> True then Inl (AssertionError []) else
      (case rt CallProcessImage of Some e \<Rightarrow> Inl e | None \<Rightarrow>
       if fst (process_image ''test.jpg'' vision) \<noteq> ''Processed: test.jpg''
       then Inl (AssertionError []) else
       (case rt CallCreatePlan of Some e \<Rightarrow> Inl e | None \<Rightarrow>
        if fst (create_plan [''objective1''] planner) = None
        then Inl (AssertionError []) else Inr ())))"

text \<open>
  The body of the \<open>try\<close> block: the lines printed so far, and either the exception that
  left the block or the value it returned.
\<close>

definition try_body :: "runtime \<Rightarrow> string list \<times> (py_exc + bool)" where
  "try_body rt =
     (case import_stage rt of Inl e \<Rightarrow> ([], Inl e) | Inr u \<Rightarrow>
      (let out1 = [check_mark @ '' All imports successful!''] in
       case instantiate_stage rt of Inl e \<Rightarrow> (out1, Inl e) | Inr (adb, vision, planner) \<Rightarrow>
       (let out2 = out1 @ [check_mark @ '' All modules instantiated successfully!''] in
        case assert_stage rt adb vision planner of Inl e \<Rightarrow> (out2, Inl e) | Inr u \<Rightarrow>
          (out2 @ [check_mark @ '' All module functions working correctly!''], Inr True))))"

text \<open>
  The \<open>except\<close> clauses, tried in the order of the source: \<open>except ImportError\<close>, then
  \<open>except Exception\<close>. There is no third clause, so an exception that is an instance of
  neither class is not handled and leaves \<open>test_imports\<close>, with nothing printed for it.
\<close>

definition except_clauses :: "string list \<Rightarrow> py_exc \<Rightarrow> string list \<times> (py_exc + bool)" where
  "except_clauses out e =
     (if isinstance_ImportError e
      then (out @ [cross_mark @ '' Import error: '' @ str_exc e], Inr False)
      else if isinstance_Exception e
      then (out @ [cross_mark @ '' Error: '' @ str_exc e], Inr False)
      else (out, Inl e))"

text \<open>
  The function \<open>test_imports\<close>: the lines printed on standard output, and either the
  value returned or the exception that left the function.
\<close>

definition test_imports :: "runtime \<Rightarrow> string list \<times> (py_exc + bool)" where
  "test_imports rt =
     (case try_body rt of
        (out, Inr r) \<Rightarrow> (out, Inr r)
      | (out, Inl e) \<Rightarrow> except_clauses out e)"

text \<open>
  What the interpreter makes of an exception that nothing catches: a \<open>SystemExit\<close> ends
  the process with its code (the low eight bits on POSIX), a \<open>KeyboardInterrupt\<close> with
  130, anything else with a traceback on standard error and status 1.
\<close>

fun uncaught_status :: "py_exc \<Rightarrow> int" where
  "uncaught_status (SystemExit code) = code mod 256"
| "uncaught_status (KeyboardInterrupt msg) = 130"
| "uncaught_status e = 1"

text \<open>
  The \<open>__main__\<close> block: the lines printed on standard output and the exit status of the
  process. When \<open>test_imports\<close> returns, the status is the one passed to \<open>exit\<close>; when an
  exception leaves it, the \<open>exit\<close> line is not reached and the interpreter ends the
  process.
\<close>

definition main_block :: "runtime \<Rightarrow> string list \<times> int" where
  "main_block rt =
     (case test_imports rt of
        (out, Inr success) \<Rightarrow> (out, if success then 0 else 1)
      | (out, Inl e) \<Rightarrow> (out, uncaught_status e))"

section \<open>Properties of ADBController\<close>

text \<open>
  C6: whatever state the controller is in, \<open>connect()\<close> returns true and the connection
  flag read right after the call is true.
\<close>

theorem connect_returns_true_and_sets_flag:
  "fst (connect self) = True \<and> connected (snd (connect self)) = True"
  by (simp add: connect_def)

text \<open>
  C7: whatever state the controller is in, \<open>disconnect()\<close> returns true and the
  connection flag read right after the call is false.
\<close>

theorem disconnect_returns_true_and_clears_flag:
  "fst (disconnect self) = True \<and> connected (snd (disconnect self)) = False"
  by (simp add: disconnect_def)

section \<open>Properties of VisionProcessor\<close>

text \<open>
  C3: for every string \<open>s\<close> and every processor state, \<open>process_image(s)\<close> returns the
  literal prefix \<open>Processed:\<close>, one space, and then \<open>s\<close> itself; the
  initialization flag is true afterwards.
\<close>

theorem process_image_result_and_flag:
  "fst (process_image s self) = ''Processed: '' @ s
   \<and> initialized (snd (process_image s self)) = True"
  by (simp add: process_image_def)

text \<open>
  C8: for every argument and every processor state, \<open>detect_objects\<close> returns the empty
  list.
\<close>

theorem detect_objects_empty:
  "fst (detect_objects x self) = []"
  by (simp add: detect_objects_def)

section \<open>Properties of Planner\<close>

lemma truthy_create_plan: "truthy (strategy (snd (create_plan objs self)))"
  by (simp add: create_plan_def)

lemma strategy_execute_plan: "snd (execute_plan self) = self"
  by (simp add: execute_plan_def)

lemma truthy_run_calls:
  "truthy (strategy (run_calls cs self)) = (list_ex is_create cs \<or> truthy (strategy self))"
proof (induction cs arbitrary: self)
  case Nil
  show ?case by simp
next
  case (Cons c cs)
  show ?case
  proof (cases c)
    case (CreatePlan objs)
    then show ?thesis
      using Cons.IH [of "snd (create_plan objs self)"] by (simp add: truthy_create_plan)
  next
    case ExecutePlan
    then show ?thesis
      using Cons.IH [of self] by (simp add: strategy_execute_plan)
  qed
qed

text \<open>
  C1: take a fresh Planner and any history of calls on it. If the history holds no
  \<open>create_plan\<close>, the next \<open>execute_plan()\<close> returns \<open>No plan to execute\<close>; if it holds
  at least one \<open>create_plan\<close>, wherever in the history, the next \<open>execute_plan()\<close>
  returns \<open>Plan executed\<close>.
\<close>

theorem execute_plan_before_and_after_create:
  "(\<not> list_ex is_create cs \<longrightarrow>
      fst (execute_plan (run_calls cs Planner_init)) = ''No plan to execute'')
   \<and> (list_ex is_create cs \<longrightarrow>
      fst (execute_plan (run_calls cs Planner_init)) = ''Plan executed'')"
proof -
  have "truthy (strategy (run_calls cs Planner_init)) = list_ex is_create cs"
    by (simp add: truthy_run_calls Planner_init_def)
  then show ?thesis
    by (simp add: execute_plan_def)
qed

theorem execute_plan_before_and_after_create_witness:
  "\<not> list_ex is_create [ExecutePlan, ExecutePlan]
   \<and> fst (execute_plan (run_calls [ExecutePlan, ExecutePlan] Planner_init))
       = ''No plan to execute''
   \<and> list_ex is_create [ExecutePlan, CreatePlan [''a''], ExecutePlan, CreatePlan []]
   \<and> fst (execute_plan
        (run_calls [ExecutePlan, CreatePlan [''a''], ExecutePlan, CreatePlan []] Planner_init))
       = ''Plan executed''"
  using execute_plan_before_and_after_create [of "[ExecutePlan, ExecutePlan]"]
    execute_plan_before_and_after_create
      [of "[ExecutePlan, CreatePlan [''a''], ExecutePlan, CreatePlan []]"]
  by simp

text \<open>
  C2: for a non-empty list of strings \<open>objs\<close> and any Planner state, \<open>create_plan(objs)\<close>
  returns a dict whose \<open>objectives\<close> entry is \<open>objs\<close> and whose \<open>steps\<close> entry is the
  empty list, and that dict is what the Planner holds in \<open>strategy\<close> afterwards.
\<close>

theorem create_plan_returns_stored_plan:
  assumes "objs \<noteq> []"
  shows "\<exists>d. fst (create_plan objs self) = Some d
           \<and> map_of d ''objectives'' = Some objs
           \<and> map_of d ''steps'' = Some []
           \<and> strategy (snd (create_plan objs self)) = Some d"
  by (simp add: create_plan_def)

theorem create_plan_returns_stored_plan_witness:
  "[''objective1''] \<noteq> ([] :: string list)
   \<and> (\<exists>d. fst (create_plan [''objective1''] Planner_init) = Some d
           \<and> map_of d ''objectives'' = Some [''objective1'']
           \<and> map_of d ''steps'' = Some []
           \<and> strategy (snd (create_plan [''objective1''] Planner_init)) = Some d)"
proof -
  have ne: "[''objective1''] \<noteq> ([] :: string list)" by simp
  from create_plan_returns_stored_plan [OF ne, of Planner_init] ne show ?thesis
    by blast
qed

text \<open>
  C9: \<open>execute_plan()\<close> leaves the Planner as it found it, in every state: the stored
  plan, with its entries, or its absence, is the same after the call as before.
\<close>

theorem execute_plan_keeps_state:
  "snd (execute_plan self) = self
   \<and> strategy (snd (execute_plan self)) = strategy self"
  by (simp add: execute_plan_def)

text \<open>
  C10: after \<open>create_plan\<close> with the empty list of objectives, from any Planner state,
  the stored dict still has its two keys, so the next \<open>execute_plan()\<close> returns
  \<open>Plan executed\<close> and not \<open>No plan to execute\<close>.
\<close>

theorem execute_plan_after_empty_objectives:
  "fst (execute_plan (snd (create_plan [] self))) = ''Plan executed''
   \<and> fst (execute_plan (snd (create_plan [] self))) \<noteq> ''No plan to execute''"
  by (simp add: execute_plan_def create_plan_def)

section \<open>Properties of the verification script\<close>

lemma try_body_no_faults:
  "try_body no_faults =
     ([check_mark @ '' All imports successful!'',
       check_mark @ '' All modules instantiated successfully!'',
       check_mark @ '' All module functions working correctly!''], Inr True)"
  by (simp add: try_body_def import_stage_def instantiate_stage_def assert_stage_def
      no_faults_def connect_def process_image_def create_plan_def)

text \<open>
  C4: with fresh instances of the three components and nothing failing around them,
  \<open>connect()\<close> returns true, \<open>process_image("test.jpg")\<close> returns
  \<open>Processed: test.jpg\<close>, \<open>create_plan(["objective1"])\<close> returns something other than
  \<open>None\<close>, and the script prints its three success lines and exits with status 0.
\<close>

theorem end_to_end_scenario:
  "fst (connect ADBController_init) = True
   \<and> fst (process_image ''test.jpg'' VisionProcessor_init) = ''Processed: test.jpg''
   \<and> fst (create_plan [''objective1''] Planner_init) \<noteq> None
   \<and> main_block no_faults =
       ([check_mark @ '' All imports successful!'',
         check_mark @ '' All modules instantiated successfully!'',
         check_mark @ '' All module functions working correctly!''], 0)"
  by (simp add: main_block_def test_imports_def try_body_no_faults
      connect_def process_image_def create_plan_def)

text \<open>
  Whatever step the runtime fails at, the \<open>try\<close> block is left by an exception.
\<close>

lemma import_stage_fault:
  assumes "rt s = Some e" "s \<in> {ImportADBController, ImportVisionProcessor, ImportPlanner}"
  shows "\<exists>e'. import_stage rt = Inl e'"
  using assms by (auto simp: import_stage_def split: option.splits)

lemma instantiate_stage_fault:
  assumes "rt s = Some e" "s \<in> {NewADBController, NewVisionProcessor, NewPlanner}"
  shows "\<exists>e'. instantiate_stage rt = Inl e'"
  using assms by (auto simp: instantiate_stage_def split: option.splits)

lemma assert_stage_fault:
  assumes "rt s = Some e" "s \<in> {CallConnect, CallProcessImage, CallCreatePlan}"
  shows "\<exists>e'. assert_stage rt adb vision planner = Inl e'"
  using assms by (auto simp: assert_stage_def split: option.splits)

lemma fault_leaves_try_body:
  assumes "rt s = Some e"
  shows "\<exists>out e'. try_body rt = (out, Inl e')"
proof (cases "import_stage rt")
  case (Inl e1)
  then show ?thesis by (simp add: try_body_def)
next
  case imports_ok: (Inr u)
  show ?thesis
  proof (cases "instantiate_stage rt")
    case (Inl e2)
    with imports_ok show ?thesis by (simp add: try_body_def)
  next
    case (Inr objs)
    obtain adb vision planner where objs: "objs = (adb, vision, planner)"
      by (cases objs) auto
    have "s \<notin> {ImportADBController, ImportVisionProcessor, ImportPlanner}"
      using import_stage_fault [of rt s e] assms imports_ok by auto
    moreover have "s \<notin> {NewADBController, NewVisionProcessor, NewPlanner}"
      using instantiate_stage_fault [of rt s e] assms Inr by auto
    ultimately have "s \<in> {CallConnect, CallProcessImage, CallCreatePlan}"
      by (cases s) auto
    with assms obtain e3 where "assert_stage rt adb vision planner = Inl e3"
      using assert_stage_fault [of rt s e adb vision planner] by auto
    with imports_ok Inr objs show ?thesis by (simp add: try_body_def)
  qed
qed

text \<open>
  C5, as stated, fails: a \<open>SystemExit\<close> with code 0 raised by the import of the planner
  module is raised inside the \<open>try\<close> block, matches neither \<open>except\<close> clause, and ends the
  process with nothing printed, no line with the cross mark, and exit status 0.
\<close>

theorem system_exit_not_caught_counterexample:
  "try_body (no_faults(ImportPlanner \<mapsto> SystemExit 0)) = ([], Inl (SystemExit 0))
   \<and> test_imports (no_faults(ImportPlanner \<mapsto> SystemExit 0)) = ([], Inl (SystemExit 0))
   \<and> \<not> list_ex (prefix cross_mark) (fst (main_block (no_faults(ImportPlanner \<mapsto> SystemExit 0))))
   \<and> snd (main_block (no_faults(ImportPlanner \<mapsto> SystemExit 0))) = 0"
  by (simp add: main_block_def test_imports_def except_clauses_def try_body_def
      import_stage_def no_faults_def)

text \<open>
  C5, amended: whenever an exception \<open>e\<close> leaves the \<open>try\<close> block, in the import, the
  instantiation or the call stage, and \<open>e\<close> is an instance of \<open>Exception\<close> (an
  \<open>ImportError\<close> or any other subclass), the script catches it: it prints, after what
  was printed so far, one line that starts with the cross mark and reads
  \<open>Import error:\<close> for an \<open>ImportError\<close> (or a subclass) and \<open>Error:\<close> for anything
  else, followed by the text of \<open>e\<close>; the line starts with the import marker exactly for
  import failures; and the exit status is 1, so not zero. When \<open>e\<close> is not an instance
  of \<open>Exception\<close>, it is not caught: nothing more is printed, \<open>e\<close> leaves \<open>test_imports\<close>,
  and the exit status is the one the interpreter gives to the uncaught \<open>e\<close>.
\<close>

theorem failure_caught_marked_and_nonzero_exit:
  assumes "try_body rt = (out, Inl e)"
  shows "(isinstance_Exception e \<longrightarrow>
           test_imports rt =
             (out @ [cross_mark
                     @ (if isinstance_ImportError e then '' Import error: '' else '' Error: '')
                     @ str_exc e], Inr False)
           \<and> fst (main_block rt) = fst (test_imports rt)
           \<and> prefix (cross_mark @ '' Import error: '') (last (fst (main_block rt)))
               = isinstance_ImportError e
           \<and> prefix (cross_mark @ '' Error: '') (last (fst (main_block rt)))
               = (\<not> isinstance_ImportError e)
           \<and> snd (main_block rt) = 1
           \<and> snd (main_block rt) \<noteq> 0)
         \<and> (\<not> isinstance_Exception e \<longrightarrow>
           test_imports rt = (out, Inl e)
           \<and> main_block rt = (out, uncaught_status e))"
proof (cases "isinstance_Exception e")
  case True
  with assms show ?thesis
    by (simp add: main_block_def test_imports_def except_clauses_def cross_mark_def)
next
  case False
  then have "\<not> isinstance_ImportError e"
    by (cases e) simp_all
  with False assms show ?thesis
    by (simp add: main_block_def test_imports_def except_clauses_def)
qed

theorem failure_caught_marked_and_nonzero_exit_witness:
  "try_body (no_faults(ImportPlanner \<mapsto> ModuleNotFoundError ''No module named planner''))
     = ([], Inl (ModuleNotFoundError ''No module named planner''))
   \<and> isinstance_Exception (ModuleNotFoundError ''No module named planner'')
   \<and> main_block (no_faults(ImportPlanner \<mapsto> ModuleNotFoundError ''No module named planner''))
     = ([cross_mark @ '' Import error: No module named planner''], 1)
   \<and> try_body (no_faults(NewVisionProcessor \<mapsto> OtherException ''no memory''))
     = ([check_mark @ '' All imports successful!''], Inl (OtherException ''no memory''))
   \<and> isinstance_Exception (OtherException ''no memory'')
   \<and> main_block (no_faults(NewVisionProcessor \<mapsto> OtherException ''no memory''))
     = ([check_mark @ '' All imports successful!'',
         cross_mark @ '' Error: no memory''], 1)
   \<and> try_body (no_faults(CallProcessImage \<mapsto> OtherException ''boom''))
     = ([check_mark @ '' All imports successful!'',
         check_mark @ '' All modules instantiated successfully!''],
        Inl (OtherException ''boom''))
   \<and> isinstance_Exception (OtherException ''boom'')
   \<and> main_block (no_faults(CallProcessImage \<mapsto> OtherException ''boom''))
     = ([check_mark @ '' All imports successful!'',
         check_mark @ '' All modules instantiated successfully!'',
         cross_mark @ '' Error: boom''], 1)
   \<and> try_body (no_faults(NewPlanner \<mapsto> KeyboardInterrupt []))
     = ([check_mark @ '' All imports successful!''], Inl (KeyboardInterrupt []))
   \<and> \<not> isinstance_Exception (KeyboardInterrupt [])
   \<and> main_block (no_faults(NewPlanner \<mapsto> KeyboardInterrupt []))
     = ([check_mark @ '' All imports successful!''], 130)"
proof -
  let ?rt1 = "no_faults(ImportPlanner \<mapsto> ModuleNotFoundError ''No module named planner'')"
  let ?rt2 = "no_faults(NewVisionProcessor \<mapsto> OtherException ''no memory'')"
  let ?rt3 = "no_faults(CallProcessImage \<mapsto> OtherException ''boom'')"
  let ?rt4 = "no_faults(NewPlanner \<mapsto> KeyboardInterrupt [])"
  have b1: "try_body ?rt1 = ([], Inl (ModuleNotFoundError ''No module named planner''))"
    by (simp add: try_body_def import_stage_def no_faults_def)
  have b2: "try_body ?rt2 =
      ([check_mark @ '' All imports successful!''], Inl (OtherException ''no memory''))"
    by (simp add: try_body_def import_stage_def instantiate_stage_def no_faults_def)
  have b3: "try_body ?rt3 =
      ([check_mark @ '' All imports successful!'',
        check_mark @ '' All modules instantiated successfully!''],
       Inl (OtherException ''boom''))"
    by (simp add: try_body_def import_stage_def instantiate_stage_def assert_stage_def
        no_faults_def connect_def)
  have b4: "try_body ?rt4 =
      ([check_mark @ '' All imports successful!''], Inl (KeyboardInterrupt []))"
    by (simp add: try_body_def import_stage_def instantiate_stage_def no_faults_def)
  from failure_caught_marked_and_nonzero_exit [OF b1]
  have m1: "main_block ?rt1 = ([cross_mark @ '' Import error: No module named planner''], 1)"
    by (simp add: prod_eq_iff)
  from failure_caught_marked_and_nonzero_exit [OF b2]
  have m2: "main_block ?rt2 =
      ([check_mark @ '' All imports successful!'', cross_mark @ '' Error: no memory''], 1)"
    by (simp add: prod_eq_iff)
  from failure_caught_marked_and_nonzero_exit [OF b3]
  have m3: "main_block ?rt3 =
      ([check_mark @ '' All imports successful!'',
        check_mark @ '' All modules instantiated successfully!'',
        cross_mark @ '' Error: boom''], 1)"
    by (simp add: prod_eq_iff)
  from failure_caught_marked_and_nonzero_exit [OF b4]
  have m4: "main_block ?rt4 = ([check_mark @ '' All imports successful!''], 130)"
    by simp
  from b1 m1 b2 m2 b3 m3 b4 m4 show ?thesis by simp
qed

end
